theory Spec2Isabelle
  imports Main "HOL-Library.Word"
begin

section \<open>Values\<close>

text \<open>
  A Python \<open>str\<close> is a sequence of Unicode code points, so it is a list of naturals; an
  empty \<open>str\<close> is the only falsy one. File contents are bytes. Paths, dictionary keys and
  the literals of the source are ASCII and are written as HOL strings; \<open>py\<close> turns such
  a literal into a \<open>str\<close>. A JSON value in a request body is a string or something
  else.
\<close>

type_synonym pystr = "nat list"
type_synonym byte = "8 word"
type_synonym datetime = int

definition py :: "string \<Rightarrow> pystr" where
  "py s = map of_char s"

datatype json = JNull | JBool bool | JNumber int | JString pystr | JArray | JObject

datatype pyval = PyNone | PyInt int | PyStr string | PyStrs "string list"

type_synonym dict = "(string \<times> pyval) list"

datatype exn =
    RequestValidationError "string list"
  | HTTPException int string
  | OperationalError
  | InvalidRequestError
  | OSError
  | UnicodeEncodeError
  | TypeError

subsection \<open>\<open>str(int)\<close>, as the f-string of the file name uses it\<close>

definition digit :: "nat \<Rightarrow> char" where
  "digit d = char_of (48 + d)"

fun str_nat :: "nat \<Rightarrow> string" where
  "str_nat n = (if n < 10 then [digit n] else str_nat (n div 10) @ [digit (n mod 10)])"

declare str_nat.simps [simp del]

definition str_int :: "int \<Rightarrow> string" where
  "str_int i = (if i < 0 then CHR ''-'' # str_nat (nat (- i)) else str_nat (nat i))"

text \<open>What \<open>f"{x}"\<close> prints for an attribute that is an integer or still \<open>None\<close>.\<close>

definition str_attr :: "int option \<Rightarrow> string" where
  "str_attr v = (case v of None \<Rightarrow> ''None'' | Some i \<Rightarrow> str_int i)"

definition reservation :: "int option \<Rightarrow> pyval" where
  "reservation v = (case v of None \<Rightarrow> PyNone | Some i \<Rightarrow> PyInt i)"

subsection \<open>Text encodings\<close>

text \<open>
  Two encodings as Python implements them with \<open>errors="strict"\<close>. UTF-8 has no bytes
  for the surrogate code points \<open>U+D800\<close> to \<open>U+DFFF\<close>, which a \<open>str\<close> read from JSON
  can contain; it is the encoding in which the SQLite driver binds a \<open>str\<close>, and the
  text encoding of most platforms. Latin-1 has bytes for the code points below 256 only.
\<close>

definition utf8_units :: "nat \<Rightarrow> nat list option" where
  "utf8_units c =
     (if c < 0x80 then Some [c]
      else if c < 0x800 then Some [0xC0 + c div 64, 0x80 + c mod 64]
      else if 0xD800 \<le> c \<and> c < 0xE000 then None
      else if c < 0x10000
        then Some [0xE0 + c div 4096, 0x80 + c div 64 mod 64, 0x80 + c mod 64]
      else if c < 0x110000
        then Some [0xF0 + c div 262144, 0x80 + c div 4096 mod 64,
                   0x80 + c div 64 mod 64, 0x80 + c mod 64]
      else None)"

definition utf8_char :: "nat \<Rightarrow> byte list option" where
  "utf8_char c = map_option (map of_nat) (utf8_units c)"

fun utf8_encode :: "pystr \<Rightarrow> byte list option" where
  "utf8_encode [] = Some []"
| "utf8_encode (c # cs) =
     (case utf8_char c of
        None \<Rightarrow> None
      | Some bs \<Rightarrow> (case utf8_encode cs of None \<Rightarrow> None | Some r \<Rightarrow> Some (bs @ r)))"

definition latin1_encode :: "pystr \<Rightarrow> byte list option" where
  "latin1_encode s = (if list_all (\<lambda>c. c < 256) s then Some (map of_nat s) else None)"

section \<open>The data model\<close>

text \<open>
  Table \<open>submission\<close>: \<open>id\<close> is the integer primary key, every other column is nullable.
  A row of the table always has its key; the ORM object \<open>Submission\<close> has every
  attribute \<open>None\<close> until it is set or loaded.
\<close>

record row =
  row_id :: int
  row_username :: "pystr option"
  row_password :: "pystr option"
  row_created_at :: "datetime option"
  row_updated_at :: "datetime option"
  row_status :: "pystr option"

record Submission =
  id' :: "int option"
  username :: "pystr option"
  password :: "pystr option"
  created_at :: "datetime option"
  updated_at :: "datetime option"
  status :: "pystr option"

text \<open>\<open>Submission(username=..., password=...)\<close>: only the two keyword arguments are set.\<close>

definition new_Submission :: "pystr \<Rightarrow> pystr \<Rightarrow> Submission" where
  "new_Submission u p =
     \<lparr>id' = None, username = Some u, password = Some p,
      created_at = None, updated_at = None, status = None\<rparr>"

definition load :: "row \<Rightarrow> Submission" where
  "load r =
     \<lparr>id' = Some (row_id r), username = row_username r, password = row_password r,
      created_at = row_created_at r, updated_at = row_updated_at r, status = row_status r\<rparr>"

text \<open>The Pydantic model of the request body: three required \<open>str\<close> fields.\<close>

record SubmissionCreate =
  sc_username :: pystr
  sc_password :: pystr
  sc_code :: pystr

section \<open>The environment\<close>

text \<open>
  Everything outside the process that the endpoint touches: the table and whether the
  database answers, the key SQLite draws at random once the largest key is in use, the
  clock (\<open>clock w n\<close> is what the \<open>n\<close>-th call of \<open>utcnow\<close> returns), the files under
  the working directory and which paths \<open>open(path, "w")\<close> can open, the platform's text
  encoding and line separator that a text-mode file uses, the device under the files
  (\<open>device_fault w path bs = Some n\<close>: writing the bytes \<open>bs\<close> to the file fails after
  \<open>n\<close> of them have reached it, as on a full disk; \<open>None\<close>: all of them are written),
  and a log of the durable effects in the order they happen.
\<close>

datatype event = Committed "int list" | Opened string | Written string "byte list"

record world =
  table :: "row list"
  db_up :: bool
  random_rowid :: "row list \<Rightarrow> int"
  clock :: "nat \<Rightarrow> datetime"
  reads :: nat
  files :: "string \<rightharpoonup> byte list"
  openable :: "string \<Rightarrow> bool"
  encode :: "pystr \<Rightarrow> byte list option"
  linesep :: pystr
  device_fault :: "string \<Rightarrow> byte list \<Rightarrow> nat option"
  trace :: "event list"

definition utcnow :: "world \<Rightarrow> datetime \<times> world" where
  "utcnow w = (clock w (reads w), w\<lparr>reads := Suc (reads w)\<rparr>)"

subsection \<open>The record store\<close>

text \<open>
  An integer primary key of SQLite is the rowid, a signed 64-bit number: 1 in an empty
  table, otherwise one more than the largest key in use; once the largest key is
  \<open>2^63 - 1\<close>, SQLite draws positive keys at random until it finds one that is not in
  use, and gives up with an error when it finds none.
\<close>

definition max_rowid :: int where
  "max_rowid = 9223372036854775807"

definition next_rowid :: "(row list \<Rightarrow> int) \<Rightarrow> row list \<Rightarrow> int option" where
  "next_rowid draw rows =
     (case map row_id rows of
        [] \<Rightarrow> Some 1
      | i # is \<Rightarrow>
          (if fold max is i < max_rowid then Some (fold max is i + 1)
           else if 1 \<le> draw rows \<and> draw rows \<le> max_rowid \<and> draw rows \<notin> set (i # is)
             then Some (draw rows)
           else None))"

text \<open>
  The INSERT of one pending object. A column whose attribute is \<open>None\<close> takes its
  default: \<open>created_at\<close> and \<open>updated_at\<close> each call \<open>utcnow\<close>, in column order;
  \<open>status\<close> is the literal. Then the values are bound: the driver encodes each \<open>str\<close>
  in UTF-8 and raises \<open>UnicodeEncodeError\<close> for one it cannot encode, and the statement
  fails when no key can be generated. Otherwise the row is appended, and the object
  comes back with all columns loaded.
\<close>

definition storable :: "pystr option \<Rightarrow> bool" where
  "storable v = (case v of None \<Rightarrow> True | Some s \<Rightarrow> utf8_encode s \<noteq> None)"

definition INSERT :: "Submission \<Rightarrow> world \<Rightarrow> (exn + Submission) \<times> world" where
  "INSERT obj w =
     (let (c, w1) = (case created_at obj of Some t \<Rightarrow> (t, w) | None \<Rightarrow> utcnow w);
          (u, w2) = (case updated_at obj of Some t \<Rightarrow> (t, w1) | None \<Rightarrow> utcnow w1);
          s = (case status obj of Some s \<Rightarrow> s | None \<Rightarrow> py ''SUBMITTED'')
      in if \<not> (storable (username obj) \<and> storable (password obj) \<and> storable (Some s))
         then (Inl UnicodeEncodeError, w2)
         else
           (case next_rowid (random_rowid w2) (table w2) of
              None \<Rightarrow> (Inl OperationalError, w2)
            | Some i \<Rightarrow>
                (let r = \<lparr>row_id = i, row_username = username obj,
                          row_password = password obj, row_created_at = Some c,
                          row_updated_at = Some u, row_status = Some s\<rparr>
                 in (Inr (load r), w2\<lparr>table := table w2 @ [r]\<rparr>))))"

text \<open>
  A session holds the objects attached to it; the Python variable \<open>db_submission\<close> is a
  reference to one of them, here its position. The pending objects are those without
  a key. A commit flushes them in order and makes the rows durable; when an INSERT
  fails, the exception leaves \<open>commit\<close> and the transaction is rolled back, so the table
  is as it was.
\<close>

record session =
  objects :: "Submission list"

definition SessionLocal :: session where
  "SessionLocal = \<lparr>objects = []\<rparr>"

definition db_add :: "Submission \<Rightarrow> session \<Rightarrow> nat \<times> session" where
  "db_add obj db = (length (objects db), db\<lparr>objects := objects db @ [obj]\<rparr>)"

fun flush :: "Submission list \<Rightarrow> world \<Rightarrow> (exn + Submission list) \<times> world" where
  "flush [] w = (Inr [], w)"
| "flush (obj # objs) w =
     (case id' obj of
        Some _ \<Rightarrow>
          (case flush objs w of
             (Inl e, w') \<Rightarrow> (Inl e, w')
           | (Inr objs', w') \<Rightarrow> (Inr (obj # objs'), w'))
      | None \<Rightarrow>
          (case INSERT obj w of
             (Inl e, w1) \<Rightarrow> (Inl e, w1)
           | (Inr obj', w1) \<Rightarrow>
               (case flush objs w1 of
                  (Inl e, w2) \<Rightarrow> (Inl e, w2)
                | (Inr objs', w2) \<Rightarrow> (Inr (obj' # objs'), w2))))"

definition db_commit :: "session \<Rightarrow> world \<Rightarrow> (exn + session) \<times> world" where
  "db_commit db w =
     (if \<not> db_up w then (Inl OperationalError, w)
      else
        (case flush (objects db) w of
           (Inl e, w') \<Rightarrow> (Inl e, w'\<lparr>table := table w\<rparr>)
         | (Inr objs', w') \<Rightarrow>
             (Inr (db\<lparr>objects := objs'\<rparr>),
              w'\<lparr>trace := trace w' @
                   [Committed (map row_id (drop (length (table w)) (table w')))]\<rparr>)))"

definition db_refresh :: "nat \<Rightarrow> session \<Rightarrow> world \<Rightarrow> (exn + session) \<times> world" where
  "db_refresh h db w =
     (if \<not> db_up w then (Inl OperationalError, w)
      else if length (objects db) \<le> h then (Inl InvalidRequestError, w)
      else
        (case id' (objects db ! h) of
           None \<Rightarrow> (Inl InvalidRequestError, w)
         | Some i \<Rightarrow>
             (case find (\<lambda>r. row_id r = i) (table w) of
                None \<Rightarrow> (Inl InvalidRequestError, w)
              | Some r \<Rightarrow> (Inr (db\<lparr>objects := (objects db)[h := load r]\<rparr>), w))))"

definition attr_id :: "session \<Rightarrow> nat \<Rightarrow> int option" where
  "attr_id db h = (if h < length (objects db) then id' (objects db ! h) else None)"

subsection \<open>The code blob writer\<close>

text \<open>
  \<open>open(path, "w")\<close> has no \<open>encoding\<close> and no \<open>newline\<close> argument: the file is a
  text file in the platform's encoding, created or truncated when it is opened, and
  \<open>write\<close> turns every \<open>"\n"\<close> into the platform's line separator before it encodes.
  Opening raises \<open>OSError\<close> when the path cannot be opened for writing (the directory
  \<open>codes\<close> is never created by the program). Writing raises \<open>UnicodeEncodeError\<close> when
  the encoding has no bytes for the text, and the file stays as the open left it. The
  bytes reach the file when the \<open>with\<close> block flushes and closes it; when the device
  fails then, \<open>OSError\<close> is raised and the file holds the bytes that got through.
\<close>

definition open_w :: "string \<Rightarrow> world \<Rightarrow> (exn + unit) \<times> world" where
  "open_w path w =
     (if openable w path
      then (Inr (), w\<lparr>files := (files w)(path \<mapsto> []), trace := trace w @ [Opened path]\<rparr>)
      else (Inl OSError, w))"

definition translate_newlines :: "pystr \<Rightarrow> pystr \<Rightarrow> pystr" where
  "translate_newlines sep s = concat (map (\<lambda>c. if c = 10 then sep else [c]) s)"

definition file_bytes :: "world \<Rightarrow> pystr \<Rightarrow> byte list option" where
  "file_bytes w s = encode w (translate_newlines (linesep w) s)"

definition append_bytes :: "string \<Rightarrow> byte list \<Rightarrow> world \<Rightarrow> world" where
  "append_bytes path bs w =
     w\<lparr>files := (files w)(path \<mapsto> (case files w path of None \<Rightarrow> [] | Some old \<Rightarrow> old) @ bs),
       trace := trace w @ [Written path bs]\<rparr>"

definition file_write :: "string \<Rightarrow> pystr \<Rightarrow> world \<Rightarrow> (exn + unit) \<times> world" where
  "file_write path s w =
     (case file_bytes w s of
        None \<Rightarrow> (Inl UnicodeEncodeError, w)
      | Some bs \<Rightarrow>
          (case device_fault w path bs of
             None \<Rightarrow> (Inr (), append_bytes path bs w)
           | Some n \<Rightarrow> (Inl OSError, append_bytes path (take n bs) w)))"

section \<open>The submission endpoint\<close>

definition code_path :: "int option \<Rightarrow> string" where
  "code_path v = ''codes/'' @ str_attr v @ ''.py''"

definition create_submission ::
  "SubmissionCreate \<Rightarrow> session \<Rightarrow> world \<Rightarrow> (exn + dict) \<times> world" where
  "create_submission submission db w =
     (if sc_username submission = [] \<or> sc_password submission = [] \<or> sc_code submission = []
      then (Inl (HTTPException 400 ''Missing required fields''), w)
      else
        (let (db_submission, db1) =
               db_add (new_Submission (sc_username submission) (sc_password submission)) db
         in case db_commit db1 w of
              (Inl e, w1) \<Rightarrow> (Inl e, w1)
            | (Inr db2, w1) \<Rightarrow>
                (case db_refresh db_submission db2 w1 of
                   (Inl e, w2) \<Rightarrow> (Inl e, w2)
                 | (Inr db3, w2) \<Rightarrow>
                     (case open_w (code_path (attr_id db3 db_submission)) w2 of
                        (Inl e, w3) \<Rightarrow> (Inl e, w3)
                      | (Inr _, w3) \<Rightarrow>
                          (case file_write (code_path (attr_id db3 db_submission))
                                  (sc_code submission) w3 of
                             (Inl e, w4) \<Rightarrow> (Inl e, w4)
                           | (Inr _, w4) \<Rightarrow>
                               (Inr [(''reservation_id'',
                                      reservation (attr_id db3 db_submission))], w4))))))"

text \<open>
  The request body is a JSON object. The three fields of \<open>SubmissionCreate\<close> are
  required strings: a body in which one of them is absent, or present but not a string,
  is rejected by the framework's request validation before \<open>create_submission\<close> is
  called; keys the model does not declare are ignored.
\<close>

type_synonym request_body = "string \<rightharpoonup> json"

definition str_field :: "request_body \<Rightarrow> string \<Rightarrow> pystr option" where
  "str_field body k = (case body k of Some (JString s) \<Rightarrow> Some s | _ \<Rightarrow> None)"

definition invalid_fields :: "request_body \<Rightarrow> string list" where
  "invalid_fields body =
     filter (\<lambda>k. str_field body k = None) [''username'', ''password'', ''code'']"

definition validate_SubmissionCreate :: "request_body \<Rightarrow> exn + SubmissionCreate" where
  "validate_SubmissionCreate body =
     (case (str_field body ''username'', str_field body ''password'', str_field body ''code'') of
        (Some u, Some p, Some c) \<Rightarrow> Inr \<lparr>sc_username = u, sc_password = p, sc_code = c\<rparr>
      | _ \<Rightarrow> Inl (RequestValidationError (invalid_fields body)))"

text \<open>
  \<open>get_db\<close> gives each request a session of its own and closes it afterwards, whatever
  the outcome; nothing of the session outlives the request.
\<close>

definition get_db :: "(session \<Rightarrow> world \<Rightarrow> 'a \<times> world) \<Rightarrow> world \<Rightarrow> 'a \<times> world" where
  "get_db handler w = handler SessionLocal w"

text \<open>
  \<open>@app.post("/submit", status_code=200)\<close>: a dictionary the endpoint returns is the
  body of a response with status 200; an exception it raises is the result \<open>Inl\<close>.
\<close>

definition post_submit :: "request_body \<Rightarrow> world \<Rightarrow> (exn + int \<times> dict) \<times> world" where
  "post_submit body w =
     (case validate_SubmissionCreate body of
        Inl e \<Rightarrow> (Inl e, w)
      | Inr submission \<Rightarrow>
          (case get_db (create_submission submission) w of
             (Inl e, w') \<Rightarrow> (Inl e, w')
           | (Inr d, w') \<Rightarrow> (Inr (200, d), w')))"

section \<open>The rest of the application\<close>

text \<open>
  A request has a method, a path and a JSON body. \<open>create_submission\<close> is the only
  function of the program that touches the table or the files, and it is routed at
  \<open>POST /submit\<close> only; whatever else is requested leaves the environment as it is.
\<close>

record request =
  http_method :: string
  url_path :: string
  json_body :: request_body

definition handle_request :: "request \<Rightarrow> world \<Rightarrow> world" where
  "handle_request rq w =
     (if http_method rq = ''POST'' \<and> url_path rq = ''/submit''
      then snd (post_submit (json_body rq) w) else w)"

definition serve :: "request list \<Rightarrow> world \<Rightarrow> world" where
  "serve rqs w = fold handle_request rqs w"

subsection \<open>The error handlers\<close>

text \<open>
  Both handlers ignore their arguments and return a dictionary. What a handler may
  return is an object: a dictionary, or a response object such as a \<open>JSONResponse\<close>
  with its status and content.
\<close>

datatype pyobj = Dict dict | JSONResponse int dict

definition custom_404_handler :: "request \<Rightarrow> exn \<Rightarrow> pyobj" where
  "custom_404_handler rq exc = Dict [(''error'', PyStr ''Not Found'')]"

definition custom_500_handler :: "request \<Rightarrow> exn \<Rightarrow> pyobj" where
  "custom_500_handler rq exc = Dict [(''error'', PyStr ''Internal Server Error'')]"

text \<open>
  How the framework (Starlette, under FastAPI) uses a registered exception handler; this
  is the library's behaviour, not code of the program. The value the handler returns is
  awaited as an ASGI application, \<open>await response(scope, receive, send)\<close>: a response
  object sends its status and content, a dictionary is not callable and the call raises
  \<open>TypeError\<close>. A handler registered for 404 is used for an \<open>HTTPException\<close> with
  that status, which is also what an unmatched route raises; every other
  \<open>HTTPException\<close> becomes a response with its status and \<open>{"detail": ...}\<close>, and a
  request validation error the response 422 that lists the fields. The handler
  registered for 500 is used for every exception that escapes, including one raised
  while another handler's result is sent. \<open>Inl\<close> is an exception that leaves the
  application: the server then writes its own plain-text 500 response.
\<close>

definition asgi_send :: "pyobj \<Rightarrow> exn + int \<times> dict" where
  "asgi_send obj = (case obj of JSONResponse sc content \<Rightarrow> Inr (sc, content) | Dict _ \<Rightarrow> Inl TypeError)"

definition exception_middleware :: "request \<Rightarrow> exn \<Rightarrow> exn + int \<times> dict" where
  "exception_middleware rq exc =
     (case exc of
        HTTPException sc detail \<Rightarrow>
          (if sc = 404 then asgi_send (custom_404_handler rq exc)
           else Inr (sc, [(''detail'', PyStr detail)]))
      | RequestValidationError missing \<Rightarrow> Inr (422, [(''detail'', PyStrs missing)])
      | _ \<Rightarrow> Inl exc)"

definition server_error_middleware :: "request \<Rightarrow> exn \<Rightarrow> exn + int \<times> dict" where
  "server_error_middleware rq exc = asgi_send (custom_500_handler rq exc)"

definition handle_exception :: "request \<Rightarrow> exn \<Rightarrow> exn + int \<times> dict" where
  "handle_exception rq exc =
     (case exception_middleware rq exc of
        Inr r \<Rightarrow> Inr r
      | Inl e \<Rightarrow> server_error_middleware rq e)"

section \<open>Environments and requests to run the model on\<close>

text \<open>
  A fresh deployment on a POSIX system with a UTF-8 locale: an empty table, a writable
  directory \<open>codes\<close> with nothing in it, a clock that advances by a microsecond per
  reading, a device that takes every byte. Then the same with the directory \<open>codes\<close>
  missing; with a Latin-1 locale; with the line separator of Windows; with a full
  disk; with a database that does not answer.
\<close>

definition posix_utf8 :: world where
  "posix_utf8 =
     \<lparr>table = [], db_up = True, random_rowid = (\<lambda>rows. 1),
      clock = (\<lambda>n. 1730000000000000 + int n), reads = 0,
      files = Map.empty, openable = (\<lambda>p. take 6 p = ''codes/''),
      encode = utf8_encode, linesep = [10], device_fault = (\<lambda>p bs. None), trace = []\<rparr>"

definition no_codes_dir :: world where
  "no_codes_dir = posix_utf8\<lparr>openable := (\<lambda>p. False)\<rparr>"

definition posix_latin1 :: world where
  "posix_latin1 = posix_utf8\<lparr>encode := latin1_encode\<rparr>"

definition crlf_utf8 :: world where
  "crlf_utf8 = posix_utf8\<lparr>linesep := [13, 10]\<rparr>"

definition disk_full :: world where
  "disk_full = posix_utf8\<lparr>device_fault := (\<lambda>p bs. Some 0)\<rparr>"

definition db_unavailable :: world where
  "db_unavailable = posix_utf8\<lparr>db_up := False\<rparr>"

text \<open>
  Request bodies: a submission whose code has a line break, quotes of both kinds and
  the Hangul syllable U+D55C; a second one; one that lacks the user name; one whose
  password is \<open>null\<close> and whose code is empty; one whose password is empty; one whose
  fields are blanks only; one whose password is the lone surrogate \<open>"\ud800"\<close>.
\<close>

definition body_a :: request_body where
  "body_a = [''username'' \<mapsto> JString (py ''kim''), ''password'' \<mapsto> JString (py ''pw1''),
             ''code'' \<mapsto> JString [112, 40, 39, 0xD55C, 34, 41, 10]]"

definition body_b :: request_body where
  "body_b = [''username'' \<mapsto> JString (py ''lee''), ''password'' \<mapsto> JString (py ''pw2''),
             ''code'' \<mapsto> JString (py ''x=2'')]"

definition body_no_username :: request_body where
  "body_no_username = [''password'' \<mapsto> JString (py ''pw1''), ''code'' \<mapsto> JString (py ''x=1'')]"

definition body_null_password :: request_body where
  "body_null_password = [''username'' \<mapsto> JString (py ''kim''), ''password'' \<mapsto> JNull,
                         ''code'' \<mapsto> JString []]"

definition body_empty_password :: request_body where
  "body_empty_password = [''username'' \<mapsto> JString (py ''kim''), ''password'' \<mapsto> JString [],
                          ''code'' \<mapsto> JString (py ''x=1'')]"

definition body_blank :: request_body where
  "body_blank = [''username'' \<mapsto> JString [32], ''password'' \<mapsto> JString [32],
                 ''code'' \<mapsto> JString [32, 10]]"

definition body_surrogate :: request_body where
  "body_surrogate = [''username'' \<mapsto> JString (py ''kim''), ''password'' \<mapsto> JString [0xD800],
                     ''code'' \<mapsto> JString (py ''x=1'')]"

section \<open>Notions the statements use\<close>

text \<open>
  Reading UTF-8 back: the code points of a sequence of bytes, or \<open>None\<close> when the bytes
  are not the UTF-8 encoding of a \<open>str\<close>.
\<close>

definition continuation :: "nat \<Rightarrow> nat option" where
  "continuation b = (if 0x80 \<le> b \<and> b < 0xC0 then Some (b - 0x80) else None)"

definition scalar :: "nat \<Rightarrow> nat \<Rightarrow> nat option" where
  "scalar lo c =
     (if lo \<le> c \<and> c < 0x110000 \<and> \<not> (0xD800 \<le> c \<and> c < 0xE000) then Some c else None)"

fun utf8_scan :: "nat list \<Rightarrow> pystr option" where
  "utf8_scan [] = Some []"
| "utf8_scan (b # bs) =
     (if b < 0x80 then map_option ((#) b) (utf8_scan bs)
      else if b < 0xC0 then None
      else if b < 0xE0 then
        (case bs of
           b1 # r \<Rightarrow>
             (case continuation b1 of
                Some x1 \<Rightarrow>
                  (case scalar 0x80 ((b - 0xC0) * 64 + x1) of
                     Some c \<Rightarrow> map_option ((#) c) (utf8_scan r)
                   | None \<Rightarrow> None)
              | None \<Rightarrow> None)
         | _ \<Rightarrow> None)
      else if b < 0xF0 then
        (case bs of
           b1 # b2 # r \<Rightarrow>
             (case (continuation b1, continuation b2) of
                (Some x1, Some x2) \<Rightarrow>
                  (case scalar 0x800 ((b - 0xE0) * 4096 + x1 * 64 + x2) of
                     Some c \<Rightarrow> map_option ((#) c) (utf8_scan r)
                   | None \<Rightarrow> None)
              | _ \<Rightarrow> None)
         | _ \<Rightarrow> None)
      else if b < 0xF8 then
        (case bs of
           b1 # b2 # b3 # r \<Rightarrow>
             (case (continuation b1, continuation b2, continuation b3) of
                (Some x1, Some x2, Some x3) \<Rightarrow>
                  (case scalar 0x10000 ((b - 0xF0) * 262144 + x1 * 4096 + x2 * 64 + x3) of
                     Some c \<Rightarrow> map_option ((#) c) (utf8_scan r)
                   | None \<Rightarrow> None)
              | _ \<Rightarrow> None)
         | _ \<Rightarrow> None)
      else None)"

definition utf8_decode :: "byte list \<Rightarrow> pystr option" where
  "utf8_decode bs = utf8_scan (map unat bs)"

text \<open>
  The row a submission inserts under the key \<open>i\<close> in the environment \<open>w\<close>, and the
  environment after a commit that failed, after the commit, after the open, and after
  the bytes \<open>bs\<close> have reached the file.
\<close>

definition inserted_row :: "int \<Rightarrow> pystr \<Rightarrow> pystr \<Rightarrow> world \<Rightarrow> row" where
  "inserted_row i u p w =
     \<lparr>row_id = i, row_username = Some u, row_password = Some p,
      row_created_at = Some (clock w (reads w)),
      row_updated_at = Some (clock w (Suc (reads w))),
      row_status = Some (py ''SUBMITTED'')\<rparr>"

definition tried :: "world \<Rightarrow> world" where
  "tried w = w\<lparr>reads := Suc (Suc (reads w))\<rparr>"

definition committed :: "int \<Rightarrow> pystr \<Rightarrow> pystr \<Rightarrow> world \<Rightarrow> world" where
  "committed i u p w =
     w\<lparr>table := table w @ [inserted_row i u p w], reads := Suc (Suc (reads w)),
       trace := trace w @ [Committed [i]]\<rparr>"

definition opened :: "int \<Rightarrow> pystr \<Rightarrow> pystr \<Rightarrow> world \<Rightarrow> world" where
  "opened i u p w =
     (committed i u p w)\<lparr>files := (files w)(code_path (Some i) \<mapsto> []),
       trace := trace w @ [Committed [i], Opened (code_path (Some i))]\<rparr>"

definition written :: "int \<Rightarrow> pystr \<Rightarrow> pystr \<Rightarrow> byte list \<Rightarrow> world \<Rightarrow> world" where
  "written i u p bs w =
     (committed i u p w)\<lparr>files := (files w)(code_path (Some i) \<mapsto> bs),
       trace := trace w @ [Committed [i], Opened (code_path (Some i)),
                           Written (code_path (Some i)) bs]\<rparr>"

text \<open>The contents written to a path, in order, in a log of effects.\<close>

fun writes_to :: "string \<Rightarrow> event list \<Rightarrow> byte list list" where
  "writes_to p [] = []"
| "writes_to p (Written q bs # evs) = (if q = p then bs # writes_to p evs else writes_to p evs)"
| "writes_to p (Committed ks # evs) = writes_to p evs"
| "writes_to p (Opened q # evs) = writes_to p evs"

text \<open>The code points for which Python's \<open>str.isspace\<close> holds.\<close>

definition isspace :: "nat \<Rightarrow> bool" where
  "isspace c =
     (c \<in> set [9, 10, 11, 12, 13, 28, 29, 30, 31, 32, 133, 160, 5760, 8232, 8233, 8239,
               8287, 12288] \<or> (8192 \<le> c \<and> c \<le> 8202))"

definition blank :: "pystr \<Rightarrow> bool" where
  "blank s = (s \<noteq> [] \<and> list_all isspace s)"

text \<open>The value of a string of decimal digits, to read \<open>str_nat\<close> back.\<close>

definition digits_value :: "string \<Rightarrow> nat" where
  "digits_value s = foldl (\<lambda>a ch. 10 * a + (of_char ch - 48)) 0 s"

section \<open>Auxiliary facts\<close>

subsection \<open>UTF-8 read back\<close>

lemma continuation_of: "x < 64 \<Longrightarrow> continuation (0x80 + x) = Some x"
  by (simp add: continuation_def)

lemma scan_1: "b < 0x80 \<Longrightarrow> utf8_scan (b # rest) = map_option ((#) b) (utf8_scan rest)"
  by simp

lemma scan_2:
  assumes "a < 0x20" "x < 64" "scalar 0x80 (a * 64 + x) = Some c"
  shows "utf8_scan ((0xC0 + a) # (0x80 + x) # rest) = map_option ((#) c) (utf8_scan rest)"
  using assms by (simp add: continuation_of)

lemma scan_3:
  assumes "a < 0x10" "x < 64" "y < 64" "scalar 0x800 (a * 4096 + x * 64 + y) = Some c"
  shows "utf8_scan ((0xE0 + a) # (0x80 + x) # (0x80 + y) # rest) =
           map_option ((#) c) (utf8_scan rest)"
  using assms by (simp add: continuation_of)

lemma scan_4:
  assumes "a < 8" "x < 64" "y < 64" "z < 64"
    "scalar 0x10000 (a * 262144 + x * 4096 + y * 64 + z) = Some c"
  shows "utf8_scan ((0xF0 + a) # (0x80 + x) # (0x80 + y) # (0x80 + z) # rest) =
           map_option ((#) c) (utf8_scan rest)"
  using assms by (simp add: continuation_of)

lemma split_2: "(c::nat) div 64 * 64 + c mod 64 = c"
  by simp

lemma radix_64: "(d::nat) div 64 * (64 * k) + d mod 64 * k = d * k"
proof -
  define q r where "q = d div 64" and "r = d mod 64"
  have "d = 64 * q + r" by (simp add: q_def r_def)
  then have "q * (64 * k) + r * k = d * k" by (simp add: algebra_simps)
  then show ?thesis by (simp only: q_def r_def)
qed

lemma split_3: "(c::nat) div 4096 * 4096 + c div 64 mod 64 * 64 + c mod 64 = c"
proof -
  have "c div 4096 = c div 64 div 64" by (simp add: div_mult2_eq)
  moreover have "c div 64 div 64 * (64 * 64) + c div 64 mod 64 * 64 = c div 64 * 64"
    by (rule radix_64)
  ultimately have "c div 4096 * 4096 + c div 64 mod 64 * 64 = c div 64 * 64" by simp
  then show ?thesis by simp
qed

lemma split_4:
  "(c::nat) div 262144 * 262144 + c div 4096 mod 64 * 4096 + c div 64 mod 64 * 64 + c mod 64 = c"
proof -
  have "c div 262144 = c div 4096 div 64" by (simp add: div_mult2_eq)
  moreover have "c div 4096 div 64 * (64 * 4096) + c div 4096 mod 64 * 4096 = c div 4096 * 4096"
    by (rule radix_64)
  ultimately have "c div 262144 * 262144 + c div 4096 mod 64 * 4096 = c div 4096 * 4096"
    by simp
  then show ?thesis using split_3 [of c] by simp
qed

lemma scan_units:
  assumes "utf8_units c = Some us"
  shows "utf8_scan (us @ rest) = map_option ((#) c) (utf8_scan rest)"
proof -
  consider (one) "c < 0x80" | (two) "0x80 \<le> c" "c < 0x800"
    | (three) "0x800 \<le> c" "c < 0x10000" "\<not> (0xD800 \<le> c \<and> c < 0xE000)"
    | (four) "0x10000 \<le> c" "c < 0x110000"
    using assms by (auto simp: utf8_units_def split: if_splits)
  then show ?thesis
  proof cases
    case one
    then have "us = [c]" using assms by (simp add: utf8_units_def)
    then show ?thesis using one by (simp del: utf8_scan.simps add: scan_1)
  next
    case two
    then have us: "us = [0xC0 + c div 64, 0x80 + c mod 64]"
      using assms by (simp add: utf8_units_def)
    have "scalar 0x80 (c div 64 * 64 + c mod 64) = Some c"
      using two by (simp only: split_2) (simp add: scalar_def)
    then have "utf8_scan ((0xC0 + c div 64) # (0x80 + c mod 64) # rest) =
        map_option ((#) c) (utf8_scan rest)"
      using two by (intro scan_2) simp_all
    then show ?thesis by (simp only: us append_Cons append_Nil)
  next
    case three
    then have us: "us = [0xE0 + c div 4096, 0x80 + c div 64 mod 64, 0x80 + c mod 64]"
      using assms by (auto simp: utf8_units_def split: if_splits)
    have "scalar 0x800 (c div 4096 * 4096 + c div 64 mod 64 * 64 + c mod 64) = Some c"
      using three by (simp only: split_3) (simp add: scalar_def)
    then have "utf8_scan ((0xE0 + c div 4096) # (0x80 + c div 64 mod 64) # (0x80 + c mod 64) # rest) =
        map_option ((#) c) (utf8_scan rest)"
      using three by (intro scan_3) simp_all
    then show ?thesis by (simp only: us append_Cons append_Nil)
  next
    case four
    then have us: "us = [0xF0 + c div 262144, 0x80 + c div 4096 mod 64,
        0x80 + c div 64 mod 64, 0x80 + c mod 64]"
      using assms by (auto simp: utf8_units_def split: if_splits)
    have "scalar 0x10000
        (c div 262144 * 262144 + c div 4096 mod 64 * 4096 + c div 64 mod 64 * 64 + c mod 64) = Some c"
      using four by (simp only: split_4) (simp add: scalar_def)
    then have "utf8_scan ((0xF0 + c div 262144) # (0x80 + c div 4096 mod 64) #
        (0x80 + c div 64 mod 64) # (0x80 + c mod 64) # rest) = map_option ((#) c) (utf8_scan rest)"
      using four by (intro scan_4) simp_all
    then show ?thesis by (simp only: us append_Cons append_Nil)
  qed
qed

lemma units_bytes: "utf8_units c = Some us \<Longrightarrow> \<forall>u \<in> set us. u < 256"
  by (auto simp: utf8_units_def split: if_splits)

lemma unat_of_nat_bytes:
  "\<forall>u \<in> set us. u < 256 \<Longrightarrow> map unat (map of_nat us :: byte list) = us"
  by (induction us) (simp_all add: unat_of_nat)

lemma utf8_decode_char:
  assumes "utf8_char c = Some bs"
  shows "utf8_decode (bs @ rest) = map_option ((#) c) (utf8_decode rest)"
proof -
  from assms obtain us where us: "utf8_units c = Some us" "bs = map of_nat us"
    by (auto simp: utf8_char_def)
  then have "map unat bs = us"
    using units_bytes unat_of_nat_bytes by blast
  then show ?thesis
    using scan_units [OF us(1)] by (simp add: utf8_decode_def)
qed

lemma utf8_decode_Nil: "utf8_decode [] = Some []"
  by (simp add: utf8_decode_def)

lemma utf8_roundtrip: "utf8_encode s = Some bs \<Longrightarrow> utf8_decode bs = Some s"
proof (induction s arbitrary: bs)
  case Nil
  then show ?case by (simp add: utf8_decode_Nil)
next
  case (Cons c cs)
  then obtain b r where "utf8_char c = Some b" "utf8_encode cs = Some r" "bs = b @ r"
    by (auto split: option.splits)
  then show ?case using Cons.IH [of r] by (simp add: utf8_decode_char)
qed

lemma utf8_char_ascii: "c < 128 \<Longrightarrow> utf8_char c = Some [of_nat c]"
  by (simp add: utf8_char_def utf8_units_def)

lemma utf8_encode_ascii: "list_all (\<lambda>c. c < 128) s \<Longrightarrow> utf8_encode s = Some (map of_nat s)"
  by (induction s) (simp_all add: utf8_char_ascii)

lemma storable_SUBMITTED: "storable (Some (py ''SUBMITTED''))"
  by (simp add: storable_def py_def utf8_encode_ascii del: utf8_encode.simps)

subsection \<open>Primary keys\<close>

lemma next_rowid_fresh:
  assumes "next_rowid draw rows = Some i"
  shows "i \<notin> row_id ` set rows"
proof (cases rows)
  case Nil
  then show ?thesis by simp
next
  case (Cons r0 rs)
  show ?thesis
  proof (cases "fold max (map row_id rs) (row_id r0) < max_rowid")
    case True
    then have i: "i = fold max (map row_id rs) (row_id r0) + 1"
      using assms Cons by (simp add: next_rowid_def)
    have "Max (set (row_id r0 # map row_id rs)) = fold max (map row_id rs) (row_id r0)"
      by (rule Max.set_eq_fold)
    then have "\<forall>k \<in> set (map row_id rows). k \<le> fold max (map row_id rs) (row_id r0)"
      using Cons by (metis List.finite_set Max_ge list.simps(9))
    then show ?thesis using i by fastforce
  next
    case False
    then have "i \<notin> set (map row_id rows)"
      using assms Cons by (auto simp: next_rowid_def split: if_splits)
    then show ?thesis by simp
  qed
qed

lemma next_rowid_empty: "next_rowid draw [] = Some 1"
  by (simp add: next_rowid_def)

lemma find_snoc_fresh:
  "\<forall>x \<in> set xs. \<not> P x \<Longrightarrow> P r \<Longrightarrow> find P (xs @ [r]) = Some r"
  by (induction xs) auto

lemma find_fresh:
  assumes "next_rowid draw rows = Some i" "row_id r = i"
  shows "find (\<lambda>x. row_id x = i) (rows @ [r]) = Some r"
proof (rule find_snoc_fresh)
  show "\<forall>x \<in> set rows. row_id x \<noteq> i"
    using next_rowid_fresh [OF assms(1)] by (metis imageI)
  show "row_id r = i" by fact
qed

subsection \<open>File names\<close>

lemma of_char_digit: "d < 10 \<Longrightarrow> of_char (digit d) = 48 + d"
  by (simp add: digit_def)

lemma digits_value_snoc:
  "digits_value (s @ [ch]) = 10 * digits_value s + (of_char ch - 48)"
  by (simp add: digits_value_def)

lemma digits_value_str_nat: "digits_value (str_nat n) = n"
proof (induction n rule: str_nat.induct)
  case (1 n)
  show ?case
  proof (cases "n < 10")
    case True
    then show ?thesis
      by (subst str_nat.simps) (simp add: digits_value_def of_char_digit)
  next
    case False
    have "digits_value (str_nat n) = 10 * digits_value (str_nat (n div 10)) + (of_char (digit (n mod 10)) - 48)"
      using False by (subst str_nat.simps) (simp add: digits_value_snoc)
    also have "\<dots> = 10 * (n div 10) + n mod 10"
      using 1 False by (simp add: of_char_digit)
    finally show ?thesis by simp
  qed
qed

lemma str_nat_inj: "str_nat m = str_nat n \<Longrightarrow> m = n"
  by (metis digits_value_str_nat)

lemma digit_not_minus: "d < 10 \<Longrightarrow> digit d \<noteq> CHR ''-''"
proof
  assume "d < 10" and "digit d = CHR ''-''"
  then have "of_char (digit d) = (of_char CHR ''-'' :: nat)" by simp
  with \<open>d < 10\<close> show False by (simp add: of_char_digit)
qed

lemma hd_str_nat: "\<exists>d cs. d < 10 \<and> str_nat n = digit d # cs"
proof (induction n rule: str_nat.induct)
  case (1 n)
  show ?case
  proof (cases "n < 10")
    case True
    then show ?thesis by (subst str_nat.simps) auto
  next
    case False
    with 1 obtain d cs where "d < 10" "str_nat (n div 10) = digit d # cs" by blast
    then show ?thesis using False by (subst str_nat.simps) auto
  qed
qed

lemma str_nat_not_minus: "str_nat n \<noteq> CHR ''-'' # s"
proof
  assume a: "str_nat n = CHR ''-'' # s"
  obtain d cs where "d < 10" "str_nat n = digit d # cs"
    using hd_str_nat by blast
  with a have "d < 10" "digit d = CHR ''-''" by simp_all
  then show False using digit_not_minus by blast
qed

lemma str_int_inj: "str_int i = str_int j \<Longrightarrow> i = j"
  by (auto simp: str_int_def split: if_splits dest: str_nat_inj
      simp: str_nat_not_minus str_nat_not_minus [symmetric])

lemma code_path_inj: "code_path (Some i) = code_path (Some j) \<Longrightarrow> i = j"
  by (simp add: code_path_def str_attr_def str_int_inj)

lemma str_int_1: "str_int 1 = ''1''" by code_simp

lemma str_int_2: "str_int 2 = ''2''" by code_simp

subsection \<open>One valid submission, step by step\<close>

lemma row_id_inserted [simp]: "row_id (inserted_row i u p w) = i"
  by (simp add: inserted_row_def)

lemma inserted_row_fields [simp]:
  "row_username (inserted_row i u p w) = Some u" "row_password (inserted_row i u p w) = Some p"
  "row_status (inserted_row i u p w) = Some (py ''SUBMITTED'')"
  "row_created_at (inserted_row i u p w) = Some (clock w (reads w))"
  "row_updated_at (inserted_row i u p w) = Some (clock w (Suc (reads w)))"
  by (simp_all add: inserted_row_def)

lemma INSERT_new:
  "INSERT (new_Submission u p) w =
     (if utf8_encode u = None \<or> utf8_encode p = None then (Inl UnicodeEncodeError, tried w)
      else case next_rowid (random_rowid w) (table w) of
             None \<Rightarrow> (Inl OperationalError, tried w)
           | Some i \<Rightarrow>
               (Inr (load (inserted_row i u p w)),
                w\<lparr>table := table w @ [inserted_row i u p w], reads := Suc (Suc (reads w))\<rparr>))"
  using storable_SUBMITTED
  by (auto simp: INSERT_def utcnow_def new_Submission_def inserted_row_def Let_def tried_def
      storable_def split: option.splits)

lemma db_commit_single:
  "db_commit \<lparr>objects = [new_Submission u p]\<rparr> w =
     (if \<not> db_up w then (Inl OperationalError, w)
      else if utf8_encode u = None \<or> utf8_encode p = None then (Inl UnicodeEncodeError, tried w)
      else case next_rowid (random_rowid w) (table w) of
             None \<Rightarrow> (Inl OperationalError, tried w)
           | Some i \<Rightarrow> (Inr \<lparr>objects = [load (inserted_row i u p w)]\<rparr>, committed i u p w))"
proof -
  have n: "id' (new_Submission u p) = None"
    by (simp add: new_Submission_def)
  show ?thesis
    by (simp add: db_commit_def n INSERT_new committed_def tried_def split: option.split)
qed

lemma db_refresh_single:
  assumes "db_up w" "next_rowid (random_rowid w) (table w) = Some i"
  shows "db_refresh 0 \<lparr>objects = [load (inserted_row i u p w)]\<rparr> (committed i u p w) =
     (Inr \<lparr>objects = [load (inserted_row i u p w)]\<rparr>, committed i u p w)"
proof -
  have f: "find (\<lambda>r. row_id r = i) (table w @ [inserted_row i u p w])
             = Some (inserted_row i u p w)"
    by (rule find_fresh [OF assms(2)]) simp
  have k: "id' (load (inserted_row i u p w)) = Some i"
    by (simp add: load_def)
  show ?thesis
    using assms(1) by (simp add: db_refresh_def committed_def k f)
qed

lemma attr_id_single: "attr_id \<lparr>objects = [load (inserted_row i u p w)]\<rparr> 0 = Some i"
  by (simp add: attr_id_def load_def)

lemma open_w_committed:
  "open_w (code_path (Some i)) (committed i u p w) =
     (if openable w (code_path (Some i)) then (Inr (), opened i u p w)
      else (Inl OSError, committed i u p w))"
  by (simp add: open_w_def committed_def opened_def)

lemma file_bytes_opened: "file_bytes (opened i u p w) c = file_bytes w c"
  by (simp add: file_bytes_def opened_def committed_def)

lemma append_bytes_opened:
  "append_bytes (code_path (Some i)) bs (opened i u p w) = written i u p bs w"
  by (simp add: append_bytes_def opened_def written_def committed_def)

lemma file_write_opened:
  "file_write (code_path (Some i)) c (opened i u p w) =
     (case file_bytes w c of
        None \<Rightarrow> (Inl UnicodeEncodeError, opened i u p w)
      | Some bs \<Rightarrow>
          (case device_fault w (code_path (Some i)) bs of
             None \<Rightarrow> (Inr (), written i u p bs w)
           | Some n \<Rightarrow> (Inl OSError, written i u p (take n bs) w)))"
proof -
  have d: "device_fault (opened i u p w) = device_fault w"
    by (simp add: opened_def committed_def)
  show ?thesis
    by (simp add: file_write_def file_bytes_opened d append_bytes_opened split: option.split)
qed

lemma create_submission_run:
  assumes "u \<noteq> []" "p \<noteq> []" "c \<noteq> []"
  shows "create_submission \<lparr>sc_username = u, sc_password = p, sc_code = c\<rparr> SessionLocal w =
     (if \<not> db_up w then (Inl OperationalError, w)
      else if utf8_encode u = None \<or> utf8_encode p = None then (Inl UnicodeEncodeError, tried w)
      else case next_rowid (random_rowid w) (table w) of
             None \<Rightarrow> (Inl OperationalError, tried w)
           | Some i \<Rightarrow>
               (if \<not> openable w (code_path (Some i)) then (Inl OSError, committed i u p w)
                else case file_bytes w c of
                       None \<Rightarrow> (Inl UnicodeEncodeError, opened i u p w)
                     | Some bs \<Rightarrow>
                         (case device_fault w (code_path (Some i)) bs of
                            None \<Rightarrow> (Inr [(''reservation_id'', PyInt i)], written i u p bs w)
                          | Some n \<Rightarrow> (Inl OSError, written i u p (take n bs) w))))"
proof (cases "db_up w \<and> utf8_encode u \<noteq> None \<and> utf8_encode p \<noteq> None")
  case False
  then show ?thesis
    using assms
    by (auto simp: create_submission_def db_add_def SessionLocal_def db_commit_single)
next
  case True
  show ?thesis
  proof (cases "next_rowid (random_rowid w) (table w)")
    case None
    then show ?thesis
      using assms True
      by (simp add: create_submission_def db_add_def SessionLocal_def db_commit_single)
  next
    case (Some i)
    then show ?thesis
      using assms True
      by (auto simp: create_submission_def db_add_def SessionLocal_def db_commit_single
          db_refresh_single attr_id_single open_w_committed file_write_opened reservation_def
          split: option.split)
  qed
qed

subsection \<open>The kinds of request body\<close>

lemma str_field_JString: "body k = Some (JString s) \<Longrightarrow> str_field body k = Some s"
  by (simp add: str_field_def)

lemma str_field_Some: "str_field body k = Some s \<longleftrightarrow> body k = Some (JString s)"
  by (auto simp: str_field_def split: option.splits json.splits)

lemma post_submit_invalid:
  assumes "str_field body ''username'' = None \<or> str_field body ''password'' = None \<or>
    str_field body ''code'' = None"
  shows "post_submit body w = (Inl (RequestValidationError (invalid_fields body)), w)"
  using assms by (auto simp: post_submit_def validate_SubmissionCreate_def split: option.splits)

lemma post_submit_empty:
  assumes "body ''username'' = Some (JString u)" "body ''password'' = Some (JString p)"
    "body ''code'' = Some (JString c)"
    and "u = [] \<or> p = [] \<or> c = []"
  shows "post_submit body w = (Inl (HTTPException 400 ''Missing required fields''), w)"
  using assms
  by (auto simp: post_submit_def validate_SubmissionCreate_def get_db_def create_submission_def
      str_field_JString)

lemma post_submit_valid:
  assumes "body ''username'' = Some (JString u)" "body ''password'' = Some (JString p)"
    "body ''code'' = Some (JString c)"
    and "u \<noteq> []" "p \<noteq> []" "c \<noteq> []"
  shows "post_submit body w =
     (if \<not> db_up w then (Inl OperationalError, w)
      else if utf8_encode u = None \<or> utf8_encode p = None then (Inl UnicodeEncodeError, tried w)
      else case next_rowid (random_rowid w) (table w) of
             None \<Rightarrow> (Inl OperationalError, tried w)
           | Some i \<Rightarrow>
               (if \<not> openable w (code_path (Some i)) then (Inl OSError, committed i u p w)
                else case file_bytes w c of
                       None \<Rightarrow> (Inl UnicodeEncodeError, opened i u p w)
                     | Some bs \<Rightarrow>
                         (case device_fault w (code_path (Some i)) bs of
                            None \<Rightarrow>
                              (Inr (200, [(''reservation_id'', PyInt i)]), written i u p bs w)
                          | Some n \<Rightarrow> (Inl OSError, written i u p (take n bs) w))))"
  using assms
  by (simp add: post_submit_def validate_SubmissionCreate_def get_db_def create_submission_run
      str_field_JString split: option.split)

subsection \<open>Facts about the environments after each step\<close>

lemma tried_fields [simp]:
  "table (tried w) = table w" "files (tried w) = files w" "trace (tried w) = trace w"
  by (simp_all add: tried_def)

lemma table_committed [simp]: "table (committed i u p w) = table w @ [inserted_row i u p w]"
  by (simp add: committed_def)

lemma table_opened [simp]: "table (opened i u p w) = table w @ [inserted_row i u p w]"
  by (simp add: opened_def)

lemma table_written [simp]: "table (written i u p bs w) = table w @ [inserted_row i u p w]"
  by (simp add: written_def)

lemma files_committed [simp]: "files (committed i u p w) = files w"
  by (simp add: committed_def)

lemma files_opened [simp]: "files (opened i u p w) = (files w)(code_path (Some i) \<mapsto> [])"
  by (simp add: opened_def)

lemma files_written [simp]: "files (written i u p bs w) = (files w)(code_path (Some i) \<mapsto> bs)"
  by (simp add: written_def)

lemma trace_committed [simp]: "trace (committed i u p w) = trace w @ [Committed [i]]"
  by (simp add: committed_def)

lemma trace_opened [simp]:
  "trace (opened i u p w) = trace w @ [Committed [i], Opened (code_path (Some i))]"
  by (simp add: opened_def)

lemma trace_written [simp]:
  "trace (written i u p bs w) =
     trace w @ [Committed [i], Opened (code_path (Some i)), Written (code_path (Some i)) bs]"
  by (simp add: written_def)

lemma platform_written [simp]:
  "encode (written i u p bs w) = encode w" "linesep (written i u p bs w) = linesep w"
  by (simp_all add: written_def committed_def)

lemma file_bytes_written [simp]: "file_bytes (written i u p bs w) c = file_bytes w c"
  by (simp add: file_bytes_def)

lemma writes_to_append: "writes_to q (xs @ ys) = writes_to q xs @ writes_to q ys"
  by (induction q xs rule: writes_to.induct) simp_all

lemma translate_newlines_posix: "translate_newlines [10] s = s"
  by (induction s) (simp_all add: translate_newlines_def)

text \<open>Every outcome of a request, by the kind of its body and the step that fails.\<close>

lemma post_submit_cases:
  obtains (invalid) "post_submit body w = (Inl (RequestValidationError (invalid_fields body)), w)"
      "str_field body ''username'' = None \<or> str_field body ''password'' = None \<or>
       str_field body ''code'' = None"
    | (empty) u p c where "post_submit body w = (Inl (HTTPException 400 ''Missing required fields''), w)"
      "body ''username'' = Some (JString u)" "body ''password'' = Some (JString p)"
      "body ''code'' = Some (JString c)" "u = [] \<or> p = [] \<or> c = []"
    | (db_down) u p c where "post_submit body w = (Inl OperationalError, w)"
      "body ''username'' = Some (JString u)" "body ''password'' = Some (JString p)"
      "body ''code'' = Some (JString c)" "u \<noteq> []" "p \<noteq> []" "c \<noteq> []" "\<not> db_up w"
    | (unstorable) u p c where "post_submit body w = (Inl UnicodeEncodeError, tried w)"
      "body ''username'' = Some (JString u)" "body ''password'' = Some (JString p)"
      "body ''code'' = Some (JString c)" "u \<noteq> []" "p \<noteq> []" "c \<noteq> []" "db_up w"
      "utf8_encode u = None \<or> utf8_encode p = None"
    | (no_key) u p c where "post_submit body w = (Inl OperationalError, tried w)"
      "body ''username'' = Some (JString u)" "body ''password'' = Some (JString p)"
      "body ''code'' = Some (JString c)" "u \<noteq> []" "p \<noteq> []" "c \<noteq> []" "db_up w"
      "utf8_encode u \<noteq> None" "utf8_encode p \<noteq> None"
      "next_rowid (random_rowid w) (table w) = None"
    | (open_failed) u p c i where "post_submit body w = (Inl OSError, committed i u p w)"
      "body ''username'' = Some (JString u)" "body ''password'' = Some (JString p)"
      "body ''code'' = Some (JString c)" "u \<noteq> []" "p \<noteq> []" "c \<noteq> []" "db_up w"
      "utf8_encode u \<noteq> None" "utf8_encode p \<noteq> None"
      "next_rowid (random_rowid w) (table w) = Some i" "\<not> openable w (code_path (Some i))"
    | (encode_failed) u p c i where "post_submit body w = (Inl UnicodeEncodeError, opened i u p w)"
      "body ''username'' = Some (JString u)" "body ''password'' = Some (JString p)"
      "body ''code'' = Some (JString c)" "u \<noteq> []" "p \<noteq> []" "c \<noteq> []" "db_up w"
      "utf8_encode u \<noteq> None" "utf8_encode p \<noteq> None"
      "next_rowid (random_rowid w) (table w) = Some i" "openable w (code_path (Some i))"
      "file_bytes w c = None"
    | (device_failed) u p c i bs n where
      "post_submit body w = (Inl OSError, written i u p (take n bs) w)"
      "body ''username'' = Some (JString u)" "body ''password'' = Some (JString p)"
      "body ''code'' = Some (JString c)" "u \<noteq> []" "p \<noteq> []" "c \<noteq> []" "db_up w"
      "utf8_encode u \<noteq> None" "utf8_encode p \<noteq> None"
      "next_rowid (random_rowid w) (table w) = Some i" "openable w (code_path (Some i))"
      "file_bytes w c = Some bs" "device_fault w (code_path (Some i)) bs = Some n"
    | (ok) u p c i bs where
      "post_submit body w = (Inr (200, [(''reservation_id'', PyInt i)]), written i u p bs w)"
      "body ''username'' = Some (JString u)" "body ''password'' = Some (JString p)"
      "body ''code'' = Some (JString c)" "u \<noteq> []" "p \<noteq> []" "c \<noteq> []" "db_up w"
      "utf8_encode u \<noteq> None" "utf8_encode p \<noteq> None"
      "next_rowid (random_rowid w) (table w) = Some i" "openable w (code_path (Some i))"
      "file_bytes w c = Some bs" "device_fault w (code_path (Some i)) bs = None"
proof (cases "str_field body ''username'' = None \<or> str_field body ''password'' = None \<or>
    str_field body ''code'' = None")
  case True
  then show ?thesis using invalid post_submit_invalid by blast
next
  case False
  then obtain u p c where f: "body ''username'' = Some (JString u)"
      "body ''password'' = Some (JString p)" "body ''code'' = Some (JString c)"
    by (auto simp: str_field_Some)
  show ?thesis
  proof (cases "u = [] \<or> p = [] \<or> c = []")
    case True
    then show ?thesis using empty f post_submit_empty by blast
  next
    case False
    then have ne: "u \<noteq> []" "p \<noteq> []" "c \<noteq> []" by simp_all
    note v = post_submit_valid [OF f ne, of w]
    show ?thesis
    proof (cases "db_up w")
      case False
      then show ?thesis using db_down [OF _ f ne] v by simp
    next
      case up: True
      show ?thesis
      proof (cases "utf8_encode u = None \<or> utf8_encode p = None")
        case True
        then show ?thesis using unstorable [OF _ f ne up] v up by auto
      next
        case False
        then have st: "utf8_encode u \<noteq> None" "utf8_encode p \<noteq> None" by simp_all
        show ?thesis
        proof (cases "next_rowid (random_rowid w) (table w)")
          case None
          then show ?thesis using no_key [OF _ f ne up st] v up st by auto
        next
          case key: (Some i)
          show ?thesis
          proof (cases "openable w (code_path (Some i))")
            case False
            then show ?thesis using open_failed [OF _ f ne up st key] v up st key by auto
          next
            case op: True
            show ?thesis
            proof (cases "file_bytes w c")
              case None
              then show ?thesis
                using encode_failed [OF _ f ne up st key op] v up st key op by auto
            next
              case fb: (Some bs)
              show ?thesis
              proof (cases "device_fault w (code_path (Some i)) bs")
                case None
                then show ?thesis
                  using ok [OF _ f ne up st key op fb] v up st key op fb by auto
              next
                case (Some n)
                then show ?thesis
                  using device_failed [OF _ f ne up st key op fb] v up st key op fb by auto
              qed
            qed
          qed
        qed
      qed
    qed
  qed
qed

lemma post_submit_ok_inv:
  assumes "post_submit body w = (Inr x, w')"
  shows "\<exists>u p c i bs.
    body ''username'' = Some (JString u) \<and> body ''password'' = Some (JString p) \<and>
    body ''code'' = Some (JString c) \<and> u \<noteq> [] \<and> p \<noteq> [] \<and> c \<noteq> [] \<and>
    next_rowid (random_rowid w) (table w) = Some i \<and>
    file_bytes w c = Some bs \<and>
    x = (200, [(''reservation_id'', PyInt i)]) \<and> w' = written i u p bs w"
  by (rule post_submit_cases [where body = body and w = w]) (use assms in auto)

lemma post_submit_table:
  "table (snd (post_submit body w)) = table w \<or>
   (\<exists>i u p. body ''username'' = Some (JString u) \<and> body ''password'' = Some (JString p) \<and>
      table (snd (post_submit body w)) = table w @ [inserted_row i u p w])"
  by (rule post_submit_cases [where body = body and w = w]) auto

text \<open>The same outcomes as rules.\<close>

lemma post_submit_db_down:
  assumes "body ''username'' = Some (JString u)" "body ''password'' = Some (JString p)"
    "body ''code'' = Some (JString c)" "u \<noteq> []" "p \<noteq> []" "c \<noteq> []"
    and "\<not> db_up w"
  shows "post_submit body w = (Inl OperationalError, w)"
  using post_submit_valid [OF assms(1-6), of w] assms(7) by simp

lemma post_submit_unstorable:
  assumes "body ''username'' = Some (JString u)" "body ''password'' = Some (JString p)"
    "body ''code'' = Some (JString c)" "u \<noteq> []" "p \<noteq> []" "c \<noteq> []"
    and "db_up w" "utf8_encode u = None \<or> utf8_encode p = None"
  shows "post_submit body w = (Inl UnicodeEncodeError, tried w)"
  using post_submit_valid [OF assms(1-6), of w] assms(7,8) by auto

lemma post_submit_no_key:
  assumes "body ''username'' = Some (JString u)" "body ''password'' = Some (JString p)"
    "body ''code'' = Some (JString c)" "u \<noteq> []" "p \<noteq> []" "c \<noteq> []"
    and "db_up w" "utf8_encode u \<noteq> None" "utf8_encode p \<noteq> None"
    and "next_rowid (random_rowid w) (table w) = None"
  shows "post_submit body w = (Inl OperationalError, tried w)"
  using post_submit_valid [OF assms(1-6), of w] assms(7-) by auto

lemma post_submit_open_failed:
  assumes "body ''username'' = Some (JString u)" "body ''password'' = Some (JString p)"
    "body ''code'' = Some (JString c)" "u \<noteq> []" "p \<noteq> []" "c \<noteq> []"
    and "db_up w" "utf8_encode u \<noteq> None" "utf8_encode p \<noteq> None"
    and "next_rowid (random_rowid w) (table w) = Some i"
    and "\<not> openable w (code_path (Some i))"
  shows "post_submit body w = (Inl OSError, committed i u p w)"
  using post_submit_valid [OF assms(1-6), of w] assms(7-) by auto

lemma post_submit_encode_failed:
  assumes "body ''username'' = Some (JString u)" "body ''password'' = Some (JString p)"
    "body ''code'' = Some (JString c)" "u \<noteq> []" "p \<noteq> []" "c \<noteq> []"
    and "db_up w" "utf8_encode u \<noteq> None" "utf8_encode p \<noteq> None"
    and "next_rowid (random_rowid w) (table w) = Some i"
    and "openable w (code_path (Some i))" "file_bytes w c = None"
  shows "post_submit body w = (Inl UnicodeEncodeError, opened i u p w)"
  using post_submit_valid [OF assms(1-6), of w] assms(7-) by auto

lemma post_submit_device_failed:
  assumes "body ''username'' = Some (JString u)" "body ''password'' = Some (JString p)"
    "body ''code'' = Some (JString c)" "u \<noteq> []" "p \<noteq> []" "c \<noteq> []"
    and "db_up w" "utf8_encode u \<noteq> None" "utf8_encode p \<noteq> None"
    and "next_rowid (random_rowid w) (table w) = Some i"
    and "openable w (code_path (Some i))" "file_bytes w c = Some bs"
    and "device_fault w (code_path (Some i)) bs = Some n"
  shows "post_submit body w = (Inl OSError, written i u p (take n bs) w)"
  using post_submit_valid [OF assms(1-6), of w] assms(7-) by auto

lemma post_submit_ok:
  assumes "body ''username'' = Some (JString u)" "body ''password'' = Some (JString p)"
    "body ''code'' = Some (JString c)" "u \<noteq> []" "p \<noteq> []" "c \<noteq> []"
    and "db_up w" "utf8_encode u \<noteq> None" "utf8_encode p \<noteq> None"
    and "next_rowid (random_rowid w) (table w) = Some i"
    and "openable w (code_path (Some i))" "file_bytes w c = Some bs"
    and "device_fault w (code_path (Some i)) bs = None"
  shows "post_submit body w = (Inr (200, [(''reservation_id'', PyInt i)]), written i u p bs w)"
  using post_submit_valid [OF assms(1-6), of w] assms(7-) by auto

subsection \<open>The sample environments and requests, evaluated\<close>

lemma body_a_fields:
  "body_a ''username'' = Some (JString (py ''kim''))"
  "body_a ''password'' = Some (JString (py ''pw1''))"
  "body_a ''code'' = Some (JString [112, 40, 39, 0xD55C, 34, 41, 10])"
  by (simp_all add: body_a_def)

lemma body_b_fields:
  "body_b ''username'' = Some (JString (py ''lee''))"
  "body_b ''password'' = Some (JString (py ''pw2''))"
  "body_b ''code'' = Some (JString (py ''x=2''))"
  by (simp_all add: body_b_def)

lemma body_blank_fields:
  "body_blank ''username'' = Some (JString [32])" "body_blank ''password'' = Some (JString [32])"
  "body_blank ''code'' = Some (JString [32, 10])"
  by (simp_all add: body_blank_def)

lemma body_surrogate_fields:
  "body_surrogate ''username'' = Some (JString (py ''kim''))"
  "body_surrogate ''password'' = Some (JString [0xD800])"
  "body_surrogate ''code'' = Some (JString (py ''x=1''))"
  by (simp_all add: body_surrogate_def)

lemma body_empty_password_fields:
  "body_empty_password ''username'' = Some (JString (py ''kim''))"
  "body_empty_password ''password'' = Some (JString [])"
  "body_empty_password ''code'' = Some (JString (py ''x=1''))"
  by (simp_all add: body_empty_password_def)

lemma invalid_no_username:
  "str_field body_no_username ''username'' = None"
  "invalid_fields body_no_username = [''username'']"
  by (simp_all add: invalid_fields_def str_field_def body_no_username_def)

lemma invalid_null_password:
  "str_field body_null_password ''password'' = None"
  "invalid_fields body_null_password = [''password'']"
  by (simp_all add: invalid_fields_def str_field_def body_null_password_def)

lemma py_values:
  "py ''kim'' = [107, 105, 109]" "py ''pw1'' = [112, 119, 49]" "py ''lee'' = [108, 101, 101]"
  "py ''pw2'' = [112, 119, 50]" "py ''x=2'' = [120, 61, 50]" "py ''x=1'' = [120, 61, 49]"
  by (simp_all add: py_def)

lemma py_nonempty: "py ''kim'' \<noteq> []" "py ''pw1'' \<noteq> []" "py ''lee'' \<noteq> []" "py ''pw2'' \<noteq> []"
  "py ''x=2'' \<noteq> []" "py ''x=1'' \<noteq> []"
  by (simp_all add: py_def)

lemma py_storable:
  "utf8_encode (py ''kim'') \<noteq> None" "utf8_encode (py ''pw1'') \<noteq> None"
  "utf8_encode (py ''lee'') \<noteq> None" "utf8_encode (py ''pw2'') \<noteq> None"
  "utf8_encode [32] \<noteq> None"
  by (simp_all add: py_def utf8_encode_ascii del: utf8_encode.simps)

lemma surrogate_unstorable: "utf8_encode [0xD800] = None"
  by (simp add: utf8_char_def utf8_units_def)

lemma path_1: "code_path (Some 1) = ''codes/1.py''"
  by (simp add: code_path_def str_attr_def str_int_1)

lemma path_2: "code_path (Some 2) = ''codes/2.py''"
  by (simp add: code_path_def str_attr_def str_int_2)

lemma utf8_char_hangul: "utf8_char 0xD55C = Some [0xED, 0x95, 0x9C]"
  by (simp add: utf8_char_def utf8_units_def)

lemma utf8_code_a:
  "utf8_encode [112, 40, 39, 0xD55C, 34, 41, 10] =
     Some [0x70, 0x28, 0x27, 0xED, 0x95, 0x9C, 0x22, 0x29, 0x0A]"
  by (simp add: utf8_char_ascii utf8_char_hangul)

lemma utf8_code_a_crlf:
  "utf8_encode [112, 40, 39, 0xD55C, 34, 41, 13, 10] =
     Some [0x70, 0x28, 0x27, 0xED, 0x95, 0x9C, 0x22, 0x29, 0x0D, 0x0A]"
  by (simp add: utf8_char_ascii utf8_char_hangul)

lemma utf8_x2: "utf8_encode [120, 61, 50] = Some [0x78, 0x3D, 0x32]"
  by (simp add: utf8_char_ascii)

lemma utf8_blank: "utf8_encode [32, 10] = Some [0x20, 0x0A]"
  by (simp add: utf8_char_ascii)

lemma posix_utf8_fields:
  "table posix_utf8 = []" "db_up posix_utf8" "files posix_utf8 = Map.empty"
  "encode posix_utf8 = utf8_encode" "linesep posix_utf8 = [10]" "trace posix_utf8 = []"
  "reads posix_utf8 = 0" "openable posix_utf8 ''codes/1.py''" "openable posix_utf8 ''codes/2.py''"
  "device_fault posix_utf8 = (\<lambda>p bs. None)" "clock posix_utf8 = (\<lambda>n. 1730000000000000 + int n)"
  by (simp_all add: posix_utf8_def)

lemma no_codes_dir_fields:
  "table no_codes_dir = []" "db_up no_codes_dir" "files no_codes_dir = Map.empty"
  "trace no_codes_dir = []" "\<not> openable no_codes_dir ''codes/1.py''"
  by (simp_all add: no_codes_dir_def posix_utf8_def)

lemma posix_latin1_fields:
  "table posix_latin1 = []" "db_up posix_latin1" "files posix_latin1 = Map.empty"
  "encode posix_latin1 = latin1_encode" "linesep posix_latin1 = [10]" "trace posix_latin1 = []"
  "openable posix_latin1 ''codes/1.py''"
  by (simp_all add: posix_latin1_def posix_utf8_def)

lemma crlf_utf8_fields:
  "table crlf_utf8 = []" "db_up crlf_utf8" "files crlf_utf8 = Map.empty"
  "encode crlf_utf8 = utf8_encode" "linesep crlf_utf8 = [13, 10]" "trace crlf_utf8 = []"
  "openable crlf_utf8 ''codes/1.py''" "device_fault crlf_utf8 = (\<lambda>p bs. None)"
  by (simp_all add: crlf_utf8_def posix_utf8_def)

lemma disk_full_fields:
  "table disk_full = []" "db_up disk_full" "files disk_full = Map.empty"
  "encode disk_full = utf8_encode" "linesep disk_full = [10]" "trace disk_full = []"
  "openable disk_full ''codes/1.py''" "device_fault disk_full = (\<lambda>p bs. Some 0)"
  by (simp_all add: disk_full_def posix_utf8_def)

lemma file_bytes_a:
  "file_bytes posix_utf8 [112, 40, 39, 0xD55C, 34, 41, 10] =
     Some [0x70, 0x28, 0x27, 0xED, 0x95, 0x9C, 0x22, 0x29, 0x0A]"
  "file_bytes disk_full [112, 40, 39, 0xD55C, 34, 41, 10] =
     Some [0x70, 0x28, 0x27, 0xED, 0x95, 0x9C, 0x22, 0x29, 0x0A]"
  by (simp_all only: file_bytes_def posix_utf8_fields disk_full_fields translate_newlines_posix
      utf8_code_a)

lemma translate_a_crlf:
  "translate_newlines [13, 10] [112, 40, 39, 0xD55C, 34, 41, 10] =
     [112, 40, 39, 0xD55C, 34, 41, 13, 10]"
  by (simp add: translate_newlines_def)

lemma file_bytes_a_crlf:
  "file_bytes crlf_utf8 [112, 40, 39, 0xD55C, 34, 41, 10] =
     Some [0x70, 0x28, 0x27, 0xED, 0x95, 0x9C, 0x22, 0x29, 0x0D, 0x0A]"
  by (simp only: file_bytes_def crlf_utf8_fields translate_a_crlf utf8_code_a_crlf)

lemma file_bytes_a_latin1:
  "file_bytes posix_latin1 [112, 40, 39, 0xD55C, 34, 41, 10] = None"
  by (simp add: file_bytes_def posix_latin1_fields translate_newlines_posix latin1_encode_def)

lemma file_bytes_blank: "file_bytes posix_utf8 [32, 10] = Some [0x20, 0x0A]"
  by (simp only: file_bytes_def posix_utf8_fields translate_newlines_posix utf8_blank)

lemma fresh_key:
  "next_rowid (random_rowid posix_utf8) (table posix_utf8) = Some 1"
  "next_rowid (random_rowid no_codes_dir) (table no_codes_dir) = Some 1"
  "next_rowid (random_rowid posix_latin1) (table posix_latin1) = Some 1"
  "next_rowid (random_rowid crlf_utf8) (table crlf_utf8) = Some 1"
  "next_rowid (random_rowid disk_full) (table disk_full) = Some 1"
  by (simp_all add: posix_utf8_fields no_codes_dir_fields posix_latin1_fields crlf_utf8_fields
      disk_full_fields next_rowid_empty)

lemma paths_openable:
  "openable posix_utf8 (code_path (Some 1))" "\<not> openable no_codes_dir (code_path (Some 1))"
  "openable posix_latin1 (code_path (Some 1))" "openable crlf_utf8 (code_path (Some 1))"
  "openable disk_full (code_path (Some 1))"
  by (simp_all add: path_1 posix_utf8_fields no_codes_dir_fields posix_latin1_fields
      crlf_utf8_fields disk_full_fields)

lemma devices:
  "device_fault posix_utf8 q bs = None" "device_fault crlf_utf8 q bs = None"
  "device_fault disk_full q bs = Some 0"
  by (simp_all add: posix_utf8_fields crlf_utf8_fields disk_full_fields)

lemma run_a:
  "post_submit body_a posix_utf8 =
     (Inr (200, [(''reservation_id'', PyInt 1)]),
      written 1 (py ''kim'') (py ''pw1'') [0x70, 0x28, 0x27, 0xED, 0x95, 0x9C, 0x22, 0x29, 0x0A]
        posix_utf8)"
  by (rule post_submit_ok [OF body_a_fields py_nonempty(1,2) _ posix_utf8_fields(2)
        py_storable(1,2) fresh_key(1) paths_openable(1) file_bytes_a(1) devices(1)]) simp

lemma run_a_no_codes:
  "post_submit body_a no_codes_dir =
     (Inl OSError, committed 1 (py ''kim'') (py ''pw1'') no_codes_dir)"
  by (rule post_submit_open_failed [OF body_a_fields py_nonempty(1,2) _ no_codes_dir_fields(2)
        py_storable(1,2) fresh_key(2) paths_openable(2)]) simp

lemma run_a_latin1:
  "post_submit body_a posix_latin1 =
     (Inl UnicodeEncodeError, opened 1 (py ''kim'') (py ''pw1'') posix_latin1)"
  by (rule post_submit_encode_failed [OF body_a_fields py_nonempty(1,2) _ posix_latin1_fields(2)
        py_storable(1,2) fresh_key(3) paths_openable(3) file_bytes_a_latin1]) simp

lemma run_a_crlf:
  "post_submit body_a crlf_utf8 =
     (Inr (200, [(''reservation_id'', PyInt 1)]),
      written 1 (py ''kim'') (py ''pw1'')
        [0x70, 0x28, 0x27, 0xED, 0x95, 0x9C, 0x22, 0x29, 0x0D, 0x0A] crlf_utf8)"
  by (rule post_submit_ok [OF body_a_fields py_nonempty(1,2) _ crlf_utf8_fields(2)
        py_storable(1,2) fresh_key(4) paths_openable(4) file_bytes_a_crlf devices(2)]) simp

lemma run_a_disk_full:
  "post_submit body_a disk_full =
     (Inl OSError, written 1 (py ''kim'') (py ''pw1'') [] disk_full)"
  using post_submit_device_failed [OF body_a_fields py_nonempty(1,2) _ disk_full_fields(2)
        py_storable(1,2) fresh_key(5) paths_openable(5) file_bytes_a(2) devices(3)]
  by simp

lemma run_a_db_unavailable:
  "post_submit body_a db_unavailable = (Inl OperationalError, db_unavailable)"
  by (rule post_submit_db_down [OF body_a_fields py_nonempty(1,2)])
     (simp_all add: db_unavailable_def)

lemma run_surrogate:
  "post_submit body_surrogate posix_utf8 = (Inl UnicodeEncodeError, tried posix_utf8)"
  by (rule post_submit_unstorable [OF body_surrogate_fields py_nonempty(1) _ py_nonempty(6)
        posix_utf8_fields(2) disjI2 [OF surrogate_unstorable]]) simp

lemma run_blank:
  "post_submit body_blank posix_utf8 =
     (Inr (200, [(''reservation_id'', PyInt 1)]), written 1 [32] [32] [0x20, 0x0A] posix_utf8)"
  by (rule post_submit_ok [OF body_blank_fields _ _ _ posix_utf8_fields(2)
        py_storable(5,5) fresh_key(1) paths_openable(1) file_bytes_blank devices(1)]) simp_all

lemma run_blank_no_codes:
  "post_submit body_blank no_codes_dir = (Inl OSError, committed 1 [32] [32] no_codes_dir)"
  by (rule post_submit_open_failed [OF body_blank_fields _ _ _ no_codes_dir_fields(2)
        py_storable(5,5) fresh_key(2) paths_openable(2)]) simp_all

lemma next_rowid_single: "i < max_rowid \<Longrightarrow> row_id r = i \<Longrightarrow> next_rowid draw [r] = Some (i + 1)"
  by (simp add: next_rowid_def)

lemma run_b:
  "post_submit body_b
      (written 1 (py ''kim'') (py ''pw1'') [0x70, 0x28, 0x27, 0xED, 0x95, 0x9C, 0x22, 0x29, 0x0A]
        posix_utf8) =
     (Inr (200, [(''reservation_id'', PyInt 2)]),
      written 2 (py ''lee'') (py ''pw2'') [0x78, 0x3D, 0x32]
        (written 1 (py ''kim'') (py ''pw1'') [0x70, 0x28, 0x27, 0xED, 0x95, 0x9C, 0x22, 0x29, 0x0A]
          posix_utf8))"
    (is "post_submit body_b ?w1 = _")
proof -
  have "next_rowid (random_rowid ?w1) [inserted_row 1 (py ''kim'') (py ''pw1'') posix_utf8] = Some (1 + 1)"
    by (rule next_rowid_single) (simp_all add: max_rowid_def)
  then have t: "next_rowid (random_rowid ?w1) (table ?w1) = Some 2"
    by (simp add: posix_utf8_fields)
  have up: "db_up ?w1" "openable ?w1 (code_path (Some 2))"
    "device_fault ?w1 (code_path (Some 2)) [0x78, 0x3D, 0x32] = None"
    by (simp_all add: written_def committed_def posix_utf8_fields path_2)
  have "file_bytes ?w1 (py ''x=2'') = file_bytes posix_utf8 [120, 61, 50]"
    by (simp add: py_values)
  also have "\<dots> = Some [0x78, 0x3D, 0x32]"
    by (simp only: file_bytes_def posix_utf8_fields translate_newlines_posix utf8_x2)
  finally have fb: "file_bytes ?w1 (py ''x=2'') = Some [0x78, 0x3D, 0x32]" .
  show ?thesis
    by (rule post_submit_ok [OF body_b_fields py_nonempty(3,4,5) up(1) py_storable(3,4) t up(2)
          fb up(3)])
qed

lemma decoded_content:
  assumes "encode w (translate_newlines (linesep w) c) = Some bs"
    and "\<forall>s b. encode w s = Some b \<longrightarrow> decode b = Some s"
  shows "decode bs = Some (translate_newlines (linesep w) c)"
    and "linesep w = [10] \<longrightarrow> decode bs = Some c"
  using assms by (auto simp: translate_newlines_posix)

lemma utf8_reads_back: "\<forall>s b. utf8_encode s = Some b \<longrightarrow> utf8_decode b = Some s"
  using utf8_roundtrip by blast

lemma handle_request_table:
  "\<exists>new. table (handle_request rq w) = table w @ new \<and>
     list_all (\<lambda>r. row_status r = Some (py ''SUBMITTED'')) new"
proof (cases "http_method rq = ''POST'' \<and> url_path rq = ''/submit''")
  case False
  then show ?thesis by (auto simp: handle_request_def)
next
  case True
  from post_submit_table [of "json_body rq" w] show ?thesis
  proof
    assume "table (snd (post_submit (json_body rq) w)) = table w"
    then show ?thesis using True by (simp add: handle_request_def)
  next
    assume "\<exists>i u p. json_body rq ''username'' = Some (JString u) \<and>
      json_body rq ''password'' = Some (JString p) \<and>
      table (snd (post_submit (json_body rq) w)) = table w @ [inserted_row i u p w]"
    then obtain i u p where
      "table (snd (post_submit (json_body rq) w)) = table w @ [inserted_row i u p w]"
      by blast
    then show ?thesis
      using True by (intro exI [of _ "[inserted_row i u p w]"]) (simp add: handle_request_def)
  qed
qed

lemma serve_table:
  "\<exists>new. table (serve rqs w) = table w @ new \<and>
     list_all (\<lambda>r. row_status r = Some (py ''SUBMITTED'')) new"
proof (induction rqs arbitrary: w)
  case Nil
  then show ?case by (simp add: serve_def)
next
  case (Cons rq rqs)
  obtain n1 where 1: "table (handle_request rq w) = table w @ n1"
      "list_all (\<lambda>r. row_status r = Some (py ''SUBMITTED'')) n1"
    using handle_request_table by blast
  obtain n2 where 2: "table (serve rqs (handle_request rq w)) = table (handle_request rq w) @ n2"
      "list_all (\<lambda>r. row_status r = Some (py ''SUBMITTED'')) n2"
    using Cons.IH by blast
  have "serve (rq # rqs) w = serve rqs (handle_request rq w)"
    by (simp add: serve_def)
  then show ?case
    using 1 2 by (intro exI [of _ "n1 @ n2"]) simp
qed

lemma post_submit_valid_table:
  assumes "body ''username'' = Some (JString u)" "body ''password'' = Some (JString p)"
    "body ''code'' = Some (JString c)" "u \<noteq> []" "p \<noteq> []" "c \<noteq> []"
  shows "table (snd (post_submit body w)) =
      (if db_up w \<and> utf8_encode u \<noteq> None \<and> utf8_encode p \<noteq> None
       then (case next_rowid (random_rowid w) (table w) of
               None \<Rightarrow> table w | Some i \<Rightarrow> table w @ [inserted_row i u p w])
       else table w)"
  using post_submit_valid [OF assms, of w] by (auto split: option.splits)

lemma blank_space: "blank [32]" "blank [32, 10]"
  by (simp_all add: blank_def isspace_def)

section \<open>The claims\<close>




text \<open>
  C2. The endpoint means to answer 400 with \<open>"Missing required fields"\<close> when a field is
  missing, and does so for a field that is the empty string, leaving the environment as
  it was. But a body that omits a field, or carries something that is not a string in
  its place, never reaches the check: request validation rejects it first (the framework
  answers 422), here for a body without \<open>username\<close> and for one whose password is
  \<open>null\<close>.
\<close>

theorem omitted_field_is_not_answered_400:
  "body_no_username ''username'' = None \<and>
   post_submit body_no_username posix_utf8 =
     (Inl (RequestValidationError [''username'']), posix_utf8) \<and>
   fst (post_submit body_no_username posix_utf8) \<noteq>
     Inl (HTTPException 400 ''Missing required fields'') \<and>
   body_null_password ''password'' = Some JNull \<and>
   post_submit body_null_password posix_utf8 =
     (Inl (RequestValidationError [''password'']), posix_utf8) \<and>
   post_submit body_empty_password posix_utf8 =
     (Inl (HTTPException 400 ''Missing required fields''), posix_utf8)"
proof -
  have 1: "post_submit body_no_username posix_utf8 =
      (Inl (RequestValidationError [''username'']), posix_utf8)"
    using post_submit_invalid [of body_no_username posix_utf8] invalid_no_username by simp
  have 2: "post_submit body_null_password posix_utf8 =
      (Inl (RequestValidationError [''password'']), posix_utf8)"
    using post_submit_invalid [of body_null_password posix_utf8] invalid_null_password by simp
  have 3: "post_submit body_empty_password posix_utf8 =
      (Inl (HTTPException 400 ''Missing required fields''), posix_utf8)"
    by (rule post_submit_empty [OF body_empty_password_fields]) simp
  show ?thesis
    by (simp add: 1 2 3) (simp add: body_no_username_def body_null_password_def)
qed






text \<open>
  C5. The two handlers return the dictionaries \<open>{"error": "Not Found"}\<close> and
  \<open>{"error": "Internal Server Error"}\<close>, not response objects. The framework calls what
  a handler returns, so for an unmatched route as for an exception that escapes the
  endpoint a \<open>TypeError\<close> leaves the application, and the client gets the server's own
  500 response and neither of the two bodies.
\<close>

theorem error_handlers_return_bare_dict:
  "custom_404_handler rq exc = Dict [(''error'', PyStr ''Not Found'')] \<and>
   custom_500_handler rq exc = Dict [(''error'', PyStr ''Internal Server Error'')] \<and>
   handle_exception rq (HTTPException 404 detail) = Inl TypeError \<and>
   handle_exception rq OSError = Inl TypeError"
  by (simp add: custom_404_handler_def custom_500_handler_def handle_exception_def
      exception_middleware_def server_error_middleware_def asgi_send_def)

text \<open>
  C6. A request inserts no row or exactly one; the row it inserts has the status
  \<open>"SUBMITTED"\<close>, and its \<open>created_at\<close> and \<open>updated_at\<close> are the two readings of the
  clock taken while it is inserted. Whatever requests are served afterwards, the rows
  that were in the table stay in it unchanged, and every row added has the status
  \<open>"SUBMITTED"\<close>.
\<close>

theorem status_default_and_never_changed:
  "(table (snd (post_submit body w)) = table w \<or>
    (\<exists>r. table (snd (post_submit body w)) = table w @ [r] \<and>
       row_status r = Some (py ''SUBMITTED'') \<and>
       row_created_at r = Some (clock w (reads w)) \<and>
       row_updated_at r = Some (clock w (Suc (reads w))))) \<and>
   (\<exists>new. table (serve rqs w) = table w @ new \<and>
      list_all (\<lambda>r. row_status r = Some (py ''SUBMITTED'')) new)"
proof
  from post_submit_table [of body w]
  show "table (snd (post_submit body w)) = table w \<or>
    (\<exists>r. table (snd (post_submit body w)) = table w @ [r] \<and>
       row_status r = Some (py ''SUBMITTED'') \<and>
       row_created_at r = Some (clock w (reads w)) \<and>
       row_updated_at r = Some (clock w (Suc (reads w))))"
    by auto
  show "\<exists>new. table (serve rqs w) = table w @ new \<and>
      list_all (\<lambda>r. row_status r = Some (py ''SUBMITTED'')) new"
    by (rule serve_table)
qed

text \<open>
  C7 (as amended). The durable effects of a request are, in this order, the commit of
  one row, the opening of \<open>codes/{id}.py\<close> for the key of that row, and one write to that
  file; a request stops after any of them, or before the first. So the code file of a
  row is written at most once, at the path derived from the row's key, and never before
  the row is committed. It is not written at all when the open raises or the text cannot
  be encoded; the one write may be cut short by the device, and then the request fails;
  a request that is answered with 200 has written its file.
\<close>

theorem code_file_written_after_commit:
  assumes "post_submit body w = (res, w')"
  shows "\<exists>evs. trace w' = trace w @ evs \<and>
     ((evs = [] \<and> table w' = table w \<and> files w' = files w \<and> (\<exists>e. res = Inl e)) \<or>
      (\<exists>r p. table w' = table w @ [r] \<and> p = code_path (Some (row_id r)) \<and>
         ((evs = [Committed [row_id r]] \<and> files w' = files w \<and> res = Inl OSError) \<or>
          (evs = [Committed [row_id r], Opened p] \<and> files w' = (files w)(p \<mapsto> []) \<and>
             res = Inl UnicodeEncodeError) \<or>
          (\<exists>bs. evs = [Committed [row_id r], Opened p, Written p bs] \<and>
             files w' = (files w)(p \<mapsto> bs) \<and>
             (res = Inr (200, [(''reservation_id'', PyInt (row_id r))]) \<or> res = Inl OSError)))))"
proof (rule post_submit_cases [where body = body and w = w])
  assume "post_submit body w = (Inl (RequestValidationError (invalid_fields body)), w)"
  with assms show ?thesis by (intro exI [of _ "[]"]) auto
next
  fix u p c
  assume "post_submit body w = (Inl (HTTPException 400 ''Missing required fields''), w)"
  with assms show ?thesis by (intro exI [of _ "[]"]) auto
next
  fix u p c
  assume "post_submit body w = (Inl OperationalError, w)"
  with assms show ?thesis by (intro exI [of _ "[]"]) auto
next
  fix u p c
  assume "post_submit body w = (Inl UnicodeEncodeError, tried w)"
  with assms show ?thesis by (intro exI [of _ "[]"]) auto
next
  fix u p c
  assume "post_submit body w = (Inl OperationalError, tried w)"
  with assms show ?thesis by (intro exI [of _ "[]"]) auto
next
  fix u p c i
  assume "post_submit body w = (Inl OSError, committed i u p w)"
  with assms have "res = Inl OSError" "w' = committed i u p w" by simp_all
  then show ?thesis
    by (intro exI [of _ "[Committed [i]]"]) simp
next
  fix u p c i
  assume "post_submit body w = (Inl UnicodeEncodeError, opened i u p w)"
  with assms have "res = Inl UnicodeEncodeError" "w' = opened i u p w" by simp_all
  then show ?thesis
    by (intro exI [of _ "[Committed [i], Opened (code_path (Some i))]"]) simp
next
  fix u p c i bs n
  assume "post_submit body w = (Inl OSError, written i u p (take n bs) w)"
  with assms have "res = Inl OSError" "w' = written i u p (take n bs) w" by simp_all
  then show ?thesis
    by (intro exI [of _ "[Committed [i], Opened (code_path (Some i)),
          Written (code_path (Some i)) (take n bs)]"]) simp
next
  fix u p c i bs
  assume "post_submit body w =
    (Inr (200, [(''reservation_id'', PyInt i)]), written i u p bs w)"
  with assms have "res = Inr (200, [(''reservation_id'', PyInt i)])"
    "w' = written i u p bs w" by simp_all
  then show ?thesis
    by (intro exI [of _ "[Committed [i], Opened (code_path (Some i)),
          Written (code_path (Some i)) bs]"]) simp
qed

text \<open>
  The log of a successful submission, of one that finds no directory, and of one that
  finds the disk full.
\<close>

theorem code_file_written_after_commit_witness:
  "trace (snd (post_submit body_a posix_utf8)) =
     [Committed [1], Opened ''codes/1.py'',
      Written ''codes/1.py'' [0x70, 0x28, 0x27, 0xED, 0x95, 0x9C, 0x22, 0x29, 0x0A]] \<and>
   trace (snd (post_submit body_a no_codes_dir)) = [Committed [1]] \<and>
   trace (snd (post_submit body_a disk_full)) =
     [Committed [1], Opened ''codes/1.py'', Written ''codes/1.py'' []]"
  using code_file_written_after_commit [OF run_a] code_file_written_after_commit [OF run_a_no_codes]
    code_file_written_after_commit [OF run_a_disk_full]
  by (simp add: run_a run_a_no_codes run_a_disk_full posix_utf8_fields no_codes_dir_fields
      disk_full_fields path_1)

text \<open>
  C7 as it is stated fails: with the directory \<open>codes\<close> missing, the row with key 1 is
  created and its file is written not once but never.
\<close>

theorem row_created_but_file_never_written:
  "map row_id (table (snd (post_submit body_a no_codes_dir))) = [1] \<and>
   writes_to (code_path (Some 1)) (trace (snd (post_submit body_a no_codes_dir))) = [] \<and>
   files (snd (post_submit body_a no_codes_dir)) (code_path (Some 1)) = None"
  by (simp add: run_a_no_codes no_codes_dir_fields)

text \<open>
  C8. A submission with non-empty fields inserts no row or exactly one, and the row it
  inserts has the submitted password, code point for code point, in its \<open>password\<close>
  column; a submission that is answered with 200 has inserted its row.
\<close>

theorem password_stored_verbatim:
  assumes "body ''username'' = Some (JString u)" "body ''password'' = Some (JString p)"
    "body ''code'' = Some (JString c)"
    and "u \<noteq> []" "p \<noteq> []" "c \<noteq> []"
  shows "(table (snd (post_submit body w)) = table w \<or>
          (\<exists>r. table (snd (post_submit body w)) = table w @ [r] \<and> row_password r = Some p)) \<and>
         ((\<exists>x. fst (post_submit body w) = Inr x) \<longrightarrow>
          (\<exists>r. table (snd (post_submit body w)) = table w @ [r] \<and> row_password r = Some p))"
  using post_submit_valid [OF assms, of w] by (auto split: option.splits)

text \<open>The password \<open>pw1\<close> is stored as the three code points of \<open>pw1\<close>.\<close>

theorem password_stored_verbatim_witness:
  "map row_password (table (snd (post_submit body_a posix_utf8))) = [Some [112, 119, 49]]"
  using password_stored_verbatim [OF body_a_fields py_nonempty(1,2), of posix_utf8]
  by (auto simp: run_a posix_utf8_fields py_values)




text \<open>
  C10. The table after a submission with non-empty fields does not depend on the code:
  with any other non-empty code it is the same, namely the table before or the table
  before plus one row of a key, the user name, the password, the two timestamps and
  the status.
\<close>

theorem code_never_in_store:
  assumes "body ''username'' = Some (JString u)" "body ''password'' = Some (JString p)"
    "body ''code'' = Some (JString c)"
    and "u \<noteq> []" "p \<noteq> []" "c \<noteq> []" "c' \<noteq> []"
  shows "table (snd (post_submit (body(''code'' \<mapsto> JString c')) w)) =
           table (snd (post_submit body w)) \<and>
         (table (snd (post_submit body w)) = table w \<or>
          (\<exists>i. table (snd (post_submit body w)) =
             table w @
               [\<lparr>row_id = i, row_username = Some u, row_password = Some p,
                 row_created_at = Some (clock w (reads w)),
                 row_updated_at = Some (clock w (Suc (reads w))),
                 row_status = Some (py ''SUBMITTED'')\<rparr>]))"
proof -
  have 1: "table (snd (post_submit body w)) =
      (if db_up w \<and> utf8_encode u \<noteq> None \<and> utf8_encode p \<noteq> None
       then (case next_rowid (random_rowid w) (table w) of
               None \<Rightarrow> table w | Some i \<Rightarrow> table w @ [inserted_row i u p w])
       else table w)"
    by (rule post_submit_valid_table [OF assms(1-6)])
  have 2: "table (snd (post_submit (body(''code'' \<mapsto> JString c')) w)) =
      (if db_up w \<and> utf8_encode u \<noteq> None \<and> utf8_encode p \<noteq> None
       then (case next_rowid (random_rowid w) (table w) of
               None \<Rightarrow> table w | Some i \<Rightarrow> table w @ [inserted_row i u p w])
       else table w)"
    by (rule post_submit_valid_table [where c = c']) (use assms in simp_all)
  show ?thesis
    using 1 2 by (auto simp: inserted_row_def split: option.splits)
qed

text \<open>The same row for two different codes.\<close>

theorem code_never_in_store_witness:
  "table (snd (post_submit (body_a(''code'' \<mapsto> JString (py ''x=2''))) posix_utf8)) =
     table (snd (post_submit body_a posix_utf8)) \<and>
   table (snd (post_submit body_a posix_utf8)) =
     [\<lparr>row_id = 1, row_username = Some (py ''kim''), row_password = Some (py ''pw1''),
       row_created_at = Some 1730000000000000, row_updated_at = Some 1730000000000001,
       row_status = Some (py ''SUBMITTED'')\<rparr>]"
  using code_never_in_store [OF body_a_fields py_nonempty(1,2) _ py_nonempty(5), of posix_utf8]
  by (simp add: run_a posix_utf8_fields inserted_row_def)

end
